theory Spec2Isabelle
  imports Main
begin

section \<open>JavaScript values\<close>

text \<open>
  The session and theme stores of the frontend (\<^verbatim>\<open>contexts/AuthContext.jsx\<close>,
  \<^verbatim>\<open>contexts/ThemeContext.jsx\<close>) and the route guards of \<^verbatim>\<open>App.jsx\<close> handle
  untyped JavaScript values: API envelopes, identities, thrown errors. They are
  modelled as trees. Numbers are the safe integers of JavaScript (magnitude below
  \<open>2 ^ 53\<close>), strings are byte lists (UTF-8 for the localized messages), and an object
  is the list of its own properties.
\<close>

datatype jsval =
    JUndefined
  | JNull
  | JBool bool
  | JNum int
  | JStr string
  | JArr "jsval list"
  | JObj "(string \<times> jsval) list"

text \<open>ToBoolean, as used by \<^verbatim>\<open>if (x)\<close>, \<^verbatim>\<open>x ? a : b\<close> and \<^verbatim>\<open>x || y\<close>.\<close>

fun truthy :: "jsval \<Rightarrow> bool" where
  "truthy JUndefined = False"
| "truthy JNull = False"
| "truthy (JBool b) = b"
| "truthy (JNum n) = (n \<noteq> 0)"
| "truthy (JStr s) = (s \<noteq> [])"
| "truthy (JArr xs) = True"
| "truthy (JObj fs) = True"

text \<open>The operator \<^verbatim>\<open>a || b\<close>.\<close>

definition js_or :: "jsval \<Rightarrow> jsval \<Rightarrow> jsval" where
  "js_or a b = (if truthy a then a else b)"

text \<open>
  The TypeError raised by a property read on \<^verbatim>\<open>null\<close> or \<^verbatim>\<open>undefined\<close>: an object
  with a name and no \<^verbatim>\<open>response\<close> property.
\<close>

definition type_error :: jsval where
  "type_error = JObj [(''name'', JStr ''TypeError'')]"

definition syntax_error :: jsval where
  "syntax_error = JObj [(''name'', JStr ''SyntaxError'')]"

text \<open>
  A property read \<^verbatim>\<open>v.k\<close>: \<open>Inl\<close> is the thrown value. The stores read only the
  properties \<^verbatim>\<open>success\<close>, \<^verbatim>\<open>data\<close>, \<^verbatim>\<open>message\<close>, \<^verbatim>\<open>response\<close> and \<^verbatim>\<open>id\<close>, none of
  which a primitive or an array has.
\<close>

fun get_prop :: "jsval \<Rightarrow> string \<Rightarrow> jsval + jsval" where
  "get_prop JUndefined k = Inl type_error"
| "get_prop JNull k = Inl type_error"
| "get_prop (JObj fs) k = Inr (case map_of fs k of Some v \<Rightarrow> v | None \<Rightarrow> JUndefined)"
| "get_prop v k = Inr JUndefined"

text \<open>Optional chaining \<^verbatim>\<open>v?.k\<close>: \<^verbatim>\<open>undefined\<close> where the plain read would throw.\<close>

definition opt_prop :: "jsval \<Rightarrow> string \<Rightarrow> jsval" where
  "opt_prop v k = (case get_prop v k of Inl e \<Rightarrow> JUndefined | Inr x \<Rightarrow> x)"

text \<open>
  ToString, as applied by a template literal and by the storage API. A safe integer
  prints in plain decimal; JavaScript prints in exponent form only from \<open>10 ^ 21\<close> on,
  beyond the numbers modelled here.
\<close>

fun digits :: "nat \<Rightarrow> string" where
  "digits n = (if n < 10 then [char_of (48 + n)]
               else digits (n div 10) @ [char_of (48 + n mod 10)])"

definition show_int :: "int \<Rightarrow> string" where
  "show_int i = (if i < 0 then CHR ''-'' # digits (nat (- i)) else digits (nat i))"

fun join :: "string list \<Rightarrow> string" where
  "join [] = []"
| "join [s] = s"
| "join (s # t # ss) = s @ '','' @ join (t # ss)"

fun to_string :: "jsval \<Rightarrow> string" where
  "to_string JUndefined = ''undefined''"
| "to_string JNull = ''null''"
| "to_string (JBool b) = (if b then ''true'' else ''false'')"
| "to_string (JNum n) = show_int n"
| "to_string (JStr s) = s"
| "to_string (JArr xs) =
     join (map (\<lambda>x. if x = JNull \<or> x = JUndefined then [] else to_string x) xs)"
| "to_string (JObj fs) = ''[object Object]''"

section \<open>The page: component state, durable storage, document, network\<close>

datatype request = Post string jsval | Put string jsval

text \<open>What awaiting an API call gives: the resolved envelope, or the rejection.\<close>

datatype outcome = Resolves jsval | Rejects jsval

text \<open>
  \<open>user\<close> and \<open>loading\<close> are the state of \<^verbatim>\<open>AuthProvider\<close>, \<open>theme\<close> the state of
  \<^verbatim>\<open>ThemeProvider\<close>, \<open>storage\<close> is \<^verbatim>\<open>localStorage\<close>, \<open>classList\<close> the class list of
  \<^verbatim>\<open>document.documentElement\<close>, and \<open>sent\<close> records the API calls made so far.
\<close>

record world =
  user :: jsval
  loading :: bool
  theme :: jsval
  storage :: "string \<rightharpoonup> string"
  classList :: "string list"
  sent :: "request list"

text \<open>The state after the first render: \<^verbatim>\<open>useState(null)\<close>, \<^verbatim>\<open>useState(true)\<close>, \<^verbatim>\<open>useState('light')\<close>.\<close>

definition mounted :: "(string \<rightharpoonup> string) \<Rightarrow> string list \<Rightarrow> world" where
  "mounted st cl =
     \<lparr>user = JNull, loading = True, theme = JStr ''light'',
      storage = st, classList = cl, sent = []\<rparr>"

text \<open>
  A computation reads and updates the page and either returns (\<open>Inr\<close>) or throws
  (\<open>Inl\<close>); the page it leaves behind is kept in both cases. A state setter is an
  assignment, and an operation reads the state as it is when it is called: the
  properties below speak of the state before and after a call, with the component
  rendered again in between.
\<close>

type_synonym 'a io = "world \<Rightarrow> (jsval + 'a) \<times> world"

definition js_return :: "'a \<Rightarrow> 'a io" where
  "js_return x w = (Inr x, w)"

definition js_lift :: "jsval + 'a \<Rightarrow> 'a io" where
  "js_lift r w = (r, w)"

definition js_bind :: "'a io \<Rightarrow> ('a \<Rightarrow> 'b io) \<Rightarrow> 'b io" where
  "js_bind m f w = (case m w of (Inl e, w') \<Rightarrow> (Inl e, w') | (Inr x, w') \<Rightarrow> f x w')"

definition js_try :: "'a io \<Rightarrow> (jsval \<Rightarrow> 'a io) \<Rightarrow> 'a io" where
  "js_try m h w = (case m w of (Inl e, w') \<Rightarrow> h e w' | (Inr x, w') \<Rightarrow> (Inr x, w'))"

definition get_user :: "jsval io" where
  "get_user w = (Inr (user w), w)"

definition setUser :: "jsval \<Rightarrow> unit io" where
  "setUser v w = (Inr (), w\<lparr>user := v\<rparr>)"

definition setLoading :: "bool \<Rightarrow> unit io" where
  "setLoading b w = (Inr (), w\<lparr>loading := b\<rparr>)"

definition get_theme :: "jsval io" where
  "get_theme w = (Inr (theme w), w)"

definition setTheme :: "jsval \<Rightarrow> unit io" where
  "setTheme v w = (Inr (), w\<lparr>theme := v\<rparr>)"

text \<open>\<^verbatim>\<open>localStorage.getItem\<close> gives the stored string, or \<^verbatim>\<open>null\<close> for a missing key.\<close>

definition getItem :: "string \<Rightarrow> jsval io" where
  "getItem k w = (Inr (case storage w k of None \<Rightarrow> JNull | Some s \<Rightarrow> JStr s), w)"

text \<open>
  \<^verbatim>\<open>localStorage.setItem\<close> stores the string form of its argument. The storage is
  taken to have room for it: a full storage is not modelled.
\<close>

definition setItem :: "string \<Rightarrow> jsval \<Rightarrow> unit io" where
  "setItem k v w = (Inr (), w\<lparr>storage := (storage w)(k \<mapsto> to_string v)\<rparr>)"

definition removeItem :: "string \<Rightarrow> unit io" where
  "removeItem k w = (Inr (), w\<lparr>storage := (storage w)(k := None)\<rparr>)"

text \<open>
  \<^verbatim>\<open>await api.post(..)\<close> and \<^verbatim>\<open>await api.put(..)\<close>: the call is recorded, a rejection
  is thrown at the \<^verbatim>\<open>await\<close>. The API client (\<^verbatim>\<open>lib/api\<close>) is a parameter of the
  model: a function from the request to what the call gives, which does not touch the
  page itself.
\<close>

definition call :: "(request \<Rightarrow> outcome) \<Rightarrow> request \<Rightarrow> jsval io" where
  "call api req w =
     (case api req of Resolves r \<Rightarrow> Inr r | Rejects e \<Rightarrow> Inl e, w\<lparr>sent := sent w @ [req]\<rparr>)"

section \<open>The JSON built-ins\<close>

text \<open>
  \<^verbatim>\<open>JSON.parse\<close> and \<^verbatim>\<open>JSON.stringify\<close> belong to the JavaScript runtime, not to the
  repository; the model takes them as a parameter. \<open>parse\<close> gives \<open>None\<close> where
  \<^verbatim>\<open>JSON.parse\<close> throws a SyntaxError, \<open>stringify\<close> gives \<open>None\<close> where
  \<^verbatim>\<open>JSON.stringify\<close> returns \<^verbatim>\<open>undefined\<close> (as it does for \<^verbatim>\<open>undefined\<close> itself).
\<close>

record json =
  parse :: "string \<Rightarrow> jsval option"
  stringify :: "jsval \<Rightarrow> string option"

definition JSON_parse :: "json \<Rightarrow> jsval \<Rightarrow> jsval + jsval" where
  "JSON_parse J text =
     (case parse J (to_string text) of None \<Rightarrow> Inl syntax_error | Some v \<Rightarrow> Inr v)"

definition JSON_stringify :: "json \<Rightarrow> jsval \<Rightarrow> jsval" where
  "JSON_stringify J v = (case stringify J v of None \<Rightarrow> JUndefined | Some s \<Rightarrow> JStr s)"

section \<open>Session store\<close>

text \<open>
  The fallback messages of \<^verbatim>\<open>AuthContext.jsx\<close>, as the UTF-8 bytes of the source text:
  "login failed", "registration failed", "update failed", "password change failed",
  and "network error, please try again later".
\<close>

definition login_failed :: string where
  "login_failed = [CHR 0xE7, CHR 0x99, CHR 0xBB, CHR 0xE5, CHR 0xBD, CHR 0x95,
                   CHR 0xE5, CHR 0xA4, CHR 0xB1, CHR 0xE8, CHR 0xB4, CHR 0xA5]"

definition register_failed :: string where
  "register_failed = [CHR 0xE6, CHR 0xB3, CHR 0xA8, CHR 0xE5, CHR 0x86, CHR 0x8C,
                      CHR 0xE5, CHR 0xA4, CHR 0xB1, CHR 0xE8, CHR 0xB4, CHR 0xA5]"

definition update_failed :: string where
  "update_failed = [CHR 0xE6, CHR 0x9B, CHR 0xB4, CHR 0xE6, CHR 0x96, CHR 0xB0,
                    CHR 0xE5, CHR 0xA4, CHR 0xB1, CHR 0xE8, CHR 0xB4, CHR 0xA5]"

definition password_failed :: string where
  "password_failed = [CHR 0xE5, CHR 0xAF, CHR 0x86, CHR 0xE7, CHR 0xA0, CHR 0x81,
                      CHR 0xE4, CHR 0xBF, CHR 0xAE, CHR 0xE6, CHR 0x94, CHR 0xB9,
                      CHR 0xE5, CHR 0xA4, CHR 0xB1, CHR 0xE8, CHR 0xB4, CHR 0xA5]"

definition network_error :: string where
  "network_error = [CHR 0xE7, CHR 0xBD, CHR 0x91, CHR 0xE7, CHR 0xBB, CHR 0x9C,
                    CHR 0xE9, CHR 0x94, CHR 0x99, CHR 0xE8, CHR 0xAF, CHR 0xAF,
                    CHR 0xEF, CHR 0xBC, CHR 0x8C, CHR 0xE8, CHR 0xAF, CHR 0xB7,
                    CHR 0xE7, CHR 0xA8, CHR 0x8D, CHR 0xE5, CHR 0x90, CHR 0x8E,
                    CHR 0xE9, CHR 0x87, CHR 0x8D, CHR 0xE8, CHR 0xAF, CHR 0x95]"

text \<open>
  The result envelopes: \<^verbatim>\<open>{ success: true, user: u }\<close>, \<^verbatim>\<open>{ success: true }\<close> and
  \<^verbatim>\<open>{ success: false, error: m }\<close>.
\<close>

definition success_user :: "jsval \<Rightarrow> jsval" where
  "success_user u = JObj [(''success'', JBool True), (''user'', u)]"

definition success_only :: jsval where
  "success_only = JObj [(''success'', JBool True)]"

definition failure :: "jsval \<Rightarrow> jsval" where
  "failure m = JObj [(''success'', JBool False), (''error'', m)]"

text \<open>
  The effect of \<^verbatim>\<open>AuthProvider\<close>, run once after the first render:
  \<^verbatim>\<open>
    const savedUser = localStorage.getItem('user')
    if (savedUser) {
      try {
        setUser(JSON.parse(savedUser))
      } catch (error) {
        console.error('Failed to parse saved user:', error)
        localStorage.removeItem('user')
      }
    }
    setLoading(false)
  \<close>
  Console output is not part of the page and is left out here and below.
\<close>

definition AuthProvider_effect :: "json \<Rightarrow> unit io" where
  "AuthProvider_effect J =
     js_bind (getItem ''user'') (\<lambda>savedUser.
     js_bind (if truthy savedUser
              then js_try (js_bind (js_lift (JSON_parse J savedUser)) setUser)
                          (\<lambda>error. removeItem ''user'')
              else js_return ()) (\<lambda>_.
     setLoading False))"

text \<open>The requests the four operations send: method, path and body.\<close>

definition login_request :: "jsval \<Rightarrow> jsval \<Rightarrow> request" where
  "login_request usernameOrEmail password =
     Post ''/users/login''
       (JObj [(''username_or_email'', usernameOrEmail), (''password'', password)])"

definition register_request :: "jsval \<Rightarrow> jsval \<Rightarrow> jsval \<Rightarrow> jsval \<Rightarrow> request" where
  "register_request username email password displayName =
     Post ''/users/''
       (JObj [(''username'', username), (''email'', email), (''password'', password),
              (''display_name'', displayName)])"

definition update_request :: "jsval \<Rightarrow> jsval \<Rightarrow> request" where
  "update_request uid userData = Put (''/users/'' @ to_string uid) userData"

definition password_request :: "jsval \<Rightarrow> jsval \<Rightarrow> jsval \<Rightarrow> request" where
  "password_request uid oldPassword newPassword =
     Post (''/users/'' @ to_string uid @ ''/change-password'')
       (JObj [(''old_password'', oldPassword), (''new_password'', newPassword)])"

text \<open>
  The \<^verbatim>\<open>catch (error)\<close> block, the same text in all four operations:
  \<^verbatim>\<open>
    return {
      success: false,
      error: error.response?.data?.message || '<network error>'
    }
  \<close>
  The read \<^verbatim>\<open>error.response\<close> is a plain one and throws on \<^verbatim>\<open>null\<close> and \<^verbatim>\<open>undefined\<close>.
\<close>

definition catch_error :: "jsval \<Rightarrow> jsval io" where
  "catch_error error =
     js_bind (js_lift (get_prop error ''response'')) (\<lambda>r.
     js_return (failure (js_or (opt_prop (opt_prop r ''data'') ''message'')
                               (JStr network_error))))"

text \<open>
  \<^verbatim>\<open>
  const login = async (usernameOrEmail, password) => {
    try {
      const response = await api.post('/users/login', {
        username_or_email: usernameOrEmail,
        password
      })
      if (response.success) {
        const userData = response.data
        setUser(userData)
        localStorage.setItem('user', JSON.stringify(userData))
        return { success: true, user: userData }
      } else {
        return { success: false, error: response.message || '<login failed>' }
      }
    } catch (error) { ... }
  }
  \<close>
\<close>

definition login :: "json \<Rightarrow> (request \<Rightarrow> outcome) \<Rightarrow> jsval \<Rightarrow> jsval \<Rightarrow> jsval io" where
  "login J api usernameOrEmail password =
     js_try
       (js_bind (call api (login_request usernameOrEmail password)) (\<lambda>response.
        js_bind (js_lift (get_prop response ''success'')) (\<lambda>ok.
        if truthy ok
        then js_bind (js_lift (get_prop response ''data'')) (\<lambda>userData.
             js_bind (setUser userData) (\<lambda>_.
             js_bind (setItem ''user'' (JSON_stringify J userData)) (\<lambda>_.
             js_return (success_user userData))))
        else js_bind (js_lift (get_prop response ''message'')) (\<lambda>message.
             js_return (failure (js_or message (JStr login_failed)))))))
       catch_error"

text \<open>
  \<^verbatim>\<open>register(username, email, password, displayName)\<close>: the same shape, posting
  \<^verbatim>\<open>{ username, email, password, display_name: displayName }\<close> to \<^verbatim>\<open>/users/\<close>.
\<close>

definition register :: "json \<Rightarrow> (request \<Rightarrow> outcome) \<Rightarrow> jsval \<Rightarrow> jsval \<Rightarrow> jsval \<Rightarrow> jsval \<Rightarrow> jsval io" where
  "register J api username email password displayName =
     js_try
       (js_bind (call api (register_request username email password displayName))
          (\<lambda>response.
        js_bind (js_lift (get_prop response ''success'')) (\<lambda>ok.
        if truthy ok
        then js_bind (js_lift (get_prop response ''data'')) (\<lambda>userData.
             js_bind (setUser userData) (\<lambda>_.
             js_bind (setItem ''user'' (JSON_stringify J userData)) (\<lambda>_.
             js_return (success_user userData))))
        else js_bind (js_lift (get_prop response ''message'')) (\<lambda>message.
             js_return (failure (js_or message (JStr register_failed)))))))
       catch_error"

text \<open>
  \<^verbatim>\<open>
  const updateUser = async (userData) => {
    try {
      const response = await api.put(`/users/${user.id}`, userData)
      if (response.success) {
        const updatedUser = response.data
        setUser(updatedUser)
        localStorage.setItem('user', JSON.stringify(updatedUser))
        return { success: true, user: updatedUser }
      } else {
        return { success: false, error: response.message || '<update failed>' }
      }
    } catch (error) { ... }
  }
  \<close>
  The argument of \<^verbatim>\<open>api.put\<close> is evaluated first, so \<^verbatim>\<open>user.id\<close> is read, and may
  throw, before any call is made.
\<close>

definition updateUser :: "json \<Rightarrow> (request \<Rightarrow> outcome) \<Rightarrow> jsval \<Rightarrow> jsval io" where
  "updateUser J api userData =
     js_try
       (js_bind get_user (\<lambda>u.
        js_bind (js_lift (get_prop u ''id'')) (\<lambda>uid.
        js_bind (call api (update_request uid userData)) (\<lambda>response.
        js_bind (js_lift (get_prop response ''success'')) (\<lambda>ok.
        if truthy ok
        then js_bind (js_lift (get_prop response ''data'')) (\<lambda>updatedUser.
             js_bind (setUser updatedUser) (\<lambda>_.
             js_bind (setItem ''user'' (JSON_stringify J updatedUser)) (\<lambda>_.
             js_return (success_user updatedUser))))
        else js_bind (js_lift (get_prop response ''message'')) (\<lambda>message.
             js_return (failure (js_or message (JStr update_failed)))))))))
       catch_error"

text \<open>
  \<^verbatim>\<open>
  const changePassword = async (oldPassword, newPassword) => {
    try {
      const response = await api.post(`/users/${user.id}/change-password`, {
        old_password: oldPassword,
        new_password: newPassword
      })
      if (response.success) {
        return { success: true }
      } else {
        return { success: false, error: response.message || '<password change failed>' }
      }
    } catch (error) { ... }
  }
  \<close>
\<close>

definition changePassword :: "(request \<Rightarrow> outcome) \<Rightarrow> jsval \<Rightarrow> jsval \<Rightarrow> jsval io" where
  "changePassword api oldPassword newPassword =
     js_try
       (js_bind get_user (\<lambda>u.
        js_bind (js_lift (get_prop u ''id'')) (\<lambda>uid.
        js_bind (call api (password_request uid oldPassword newPassword)) (\<lambda>response.
        js_bind (js_lift (get_prop response ''success'')) (\<lambda>ok.
        if truthy ok
        then js_return success_only
        else js_bind (js_lift (get_prop response ''message'')) (\<lambda>message.
             js_return (failure (js_or message (JStr password_failed)))))))))
       catch_error"

text \<open>
  \<^verbatim>\<open>
  const logout = () => {
    setUser(null)
    localStorage.removeItem('user')
  }
  \<close>
\<close>

definition logout :: "unit io" where
  "logout = js_bind (setUser JNull) (\<lambda>_. removeItem ''user'')"

section \<open>Theme store\<close>

text \<open>
  The class list of the root element is an ordered set of tokens.
  \<^verbatim>\<open>classList.remove(..)\<close> drops the given tokens; \<^verbatim>\<open>classList.add(t)\<close> appends the
  string form of \<open>t\<close> unless it is there already, and throws a DOMException for
  the empty token (SyntaxError) and for a token with ASCII whitespace
  (InvalidCharacterError).
\<close>

definition is_space :: "char \<Rightarrow> bool" where
  "is_space c = (c \<in> set [CHR 0x09, CHR 0x0A, CHR 0x0C, CHR 0x0D, CHR 0x20])"

definition dom_exception :: "string \<Rightarrow> jsval" where
  "dom_exception n = JObj [(''name'', JStr n)]"

definition classList_remove :: "string list \<Rightarrow> unit io" where
  "classList_remove ts w = (Inr (), w\<lparr>classList := filter (\<lambda>c. c \<notin> set ts) (classList w)\<rparr>)"

definition classList_add :: "jsval \<Rightarrow> unit io" where
  "classList_add v w =
     (let t = to_string v in
      if t = [] then (Inl (dom_exception ''SyntaxError''), w)
      else if list_ex is_space t then (Inl (dom_exception ''InvalidCharacterError''), w)
      else if t \<in> set (classList w) then (Inr (), w)
      else (Inr (), w\<lparr>classList := classList w @ [t]\<rparr>))"

text \<open>
  \<^verbatim>\<open>
  const updateDocumentTheme = (newTheme) => {
    const root = document.documentElement
    root.classList.remove('light', 'dark')
    root.classList.add(newTheme)
  }
  \<close>
\<close>

definition updateDocumentTheme :: "jsval \<Rightarrow> unit io" where
  "updateDocumentTheme newTheme =
     js_bind (classList_remove [''light'', ''dark'']) (\<lambda>_. classList_add newTheme)"

text \<open>
  The effect of \<^verbatim>\<open>ThemeProvider\<close>, run once after the first render; \<open>prefers_dark\<close> is
  \<^verbatim>\<open>window.matchMedia('(prefers-color-scheme: dark)').matches\<close>.
  \<^verbatim>\<open>
    const savedTheme = localStorage.getItem('theme')
    const systemTheme = window.matchMedia('(prefers-color-scheme: dark)').matches ? 'dark' : 'light'
    const initialTheme = savedTheme || systemTheme
    setTheme(initialTheme)
    updateDocumentTheme(initialTheme)
  \<close>
  \<^verbatim>\<open>setTheme\<close> only queues the new state. When \<^verbatim>\<open>updateDocumentTheme\<close> throws, the
  effect throws, and React, finding no error boundary in the application, unmounts the
  tree: the queued value never becomes the current theme. The model then leaves the
  theme state as it was before the effect; what the effect did to the class list stays.
\<close>

definition ThemeProvider_effect :: "bool \<Rightarrow> unit io" where
  "ThemeProvider_effect prefers_dark w =
     (case js_bind (getItem ''theme'') (\<lambda>savedTheme.
           let systemTheme = (if prefers_dark then JStr ''dark'' else JStr ''light'');
               initialTheme = js_or savedTheme systemTheme
           in js_bind (setTheme initialTheme) (\<lambda>_. updateDocumentTheme initialTheme)) w of
        (Inl error, w') \<Rightarrow> (Inl error, w'\<lparr>theme := theme w\<rparr>)
      | (Inr done, w') \<Rightarrow> (Inr done, w'))"

text \<open>
  \<^verbatim>\<open>
  const toggleTheme = () => {
    const newTheme = theme === 'light' ? 'dark' : 'light'
    setTheme(newTheme)
    localStorage.setItem('theme', newTheme)
    updateDocumentTheme(newTheme)
  }
  \<close>
\<close>

definition toggleTheme :: "unit io" where
  "toggleTheme =
     js_bind get_theme (\<lambda>theme.
     let newTheme = (if theme = JStr ''light'' then JStr ''dark'' else JStr ''light'')
     in js_bind (setTheme newTheme) (\<lambda>_.
        js_bind (setItem ''theme'' newTheme) (\<lambda>_.
        updateDocumentTheme newTheme)))"

text \<open>
  \<^verbatim>\<open>
  const setThemeMode = (newTheme) => {
    setTheme(newTheme)
    localStorage.setItem('theme', newTheme)
    updateDocumentTheme(newTheme)
  }
  \<close>
\<close>

definition setThemeMode :: "jsval \<Rightarrow> unit io" where
  "setThemeMode newTheme =
     js_bind (setTheme newTheme) (\<lambda>_.
     js_bind (setItem ''theme'' newTheme) (\<lambda>_.
     updateDocumentTheme newTheme))"

section \<open>Route guards\<close>

text \<open>
  What a guard renders: the spinner, its children, or \<^verbatim>\<open><Navigate to=.. replace />\<close>.
\<close>

datatype 'a element = Spinner | Children 'a | Navigate string bool

text \<open>
  \<^verbatim>\<open>
  function ProtectedRoute({ children }) {
    const { user, loading } = useAuth()
    if (loading) { return ( <spinner> ) }
    return user ? children : <Navigate to="/login" replace />
  }
  function PublicRoute({ children }) {
    const { user, loading } = useAuth()
    if (loading) { return ( <spinner> ) }
    return user ? <Navigate to="/dashboard" replace /> : children
  }
  \<close>
\<close>

definition ProtectedRoute :: "'a \<Rightarrow> world \<Rightarrow> 'a element" where
  "ProtectedRoute children w =
     (if loading w then Spinner
      else if truthy (user w) then Children children else Navigate ''/login'' True)"

definition PublicRoute :: "'a \<Rightarrow> world \<Rightarrow> 'a element" where
  "PublicRoute children w =
     (if loading w then Spinner
      else if truthy (user w) then Navigate ''/dashboard'' True else Children children)"

section \<open>Sample data\<close>

text \<open>
  An identity and its JSON text, and the JSON built-ins cut down to that one document:
  every other text counts as unparseable and every other value as having no
  serialization. They serve to run the model on concrete inputs.
\<close>

definition alice :: jsval where
  "alice = JObj [(''id'', JNum 1), (''username'', JStr ''alice'')]"

definition alice_text :: string where
  "alice_text = ''{\"id\":1,\"username\":\"alice\"}''"

definition sample_json :: json where
  "sample_json =
     \<lparr>parse = (\<lambda>s. if s = alice_text then Some alice else None),
      stringify = (\<lambda>v. if v = alice then Some alice_text else None)\<rparr>"

text \<open>A page where alice is signed in, and a freshly mounted page with an empty storage.\<close>

definition signed_in :: world where
  "signed_in = (mounted [''user'' \<mapsto> alice_text] [])\<lparr>user := alice, loading := False\<rparr>"

definition signed_out :: world where
  "signed_out = mounted Map.empty []"

text \<open>
  Three API clients: one that accepts every request and returns alice, one whose server
  rejects every request, and one whose transport fails with an error that carries the
  server's message.
\<close>

definition accepting_api :: "request \<Rightarrow> outcome" where
  "accepting_api req = Resolves (JObj [(''success'', JBool True), (''data'', alice)])"

definition rejecting_api :: "request \<Rightarrow> outcome" where
  "rejecting_api req =
     Resolves (JObj [(''success'', JBool False), (''message'', JStr ''bad credentials'')])"

definition failing_api :: "request \<Rightarrow> outcome" where
  "failing_api req =
     Rejects (JObj [(''message'', JStr ''Request failed''),
                    (''response'', JObj [(''data'', JObj [(''message'', JStr ''bad gateway'')])])])"

section \<open>Auxiliary facts\<close>

text \<open>
  What an operation returns for the reply to its API call, given the envelope of its
  success branch and its own fallback message. It is the common shape of the four
  operations, used to state their results in one line each.
\<close>

definition settled :: "(jsval \<Rightarrow> jsval) \<Rightarrow> string \<Rightarrow> outcome \<Rightarrow> jsval" where
  "settled ok_result fallback out =
     (case out of
        Rejects e \<Rightarrow>
          failure (js_or (opt_prop (opt_prop (opt_prop e ''response'') ''data'') ''message'')
                         (JStr network_error))
      | Resolves r \<Rightarrow>
          (case get_prop r ''success'' of
             Inl t \<Rightarrow> failure (JStr network_error)
           | Inr ok \<Rightarrow>
               if truthy ok then ok_result r
               else failure (js_or (opt_prop r ''message'') (JStr fallback))))"

lemmas io_defs =
  js_return_def js_lift_def js_bind_def js_try_def get_user_def setUser_def
  setLoading_def get_theme_def setTheme_def getItem_def setItem_def removeItem_def
  call_def

text \<open>A value whose \<^verbatim>\<open>success\<close> can be read lets every other property be read too.\<close>

lemma message_readable:
  "get_prop response ''success'' = Inr ok \<Longrightarrow>
   get_prop response ''message'' = Inr (opt_prop response ''message'')"
  by (cases response) (simp_all add: opt_prop_def)

lemma data_readable:
  "get_prop response ''success'' = Inr ok \<Longrightarrow>
   get_prop response ''data'' = Inr (opt_prop response ''data'')"
  by (cases response) (simp_all add: opt_prop_def)

lemma unreadable_is_type_error:
  "get_prop v k = Inl e \<Longrightarrow> e = type_error"
  by (cases v) simp_all

text \<open>The catch block returns a failure envelope for every thrown object.\<close>

lemma catch_error_object:
  "error \<noteq> JNull \<Longrightarrow> error \<noteq> JUndefined \<Longrightarrow>
   catch_error error w =
     (Inr (failure (js_or (opt_prop (opt_prop (opt_prop error ''response'') ''data'') ''message'')
                          (JStr network_error))), w)"
  by (cases error) (simp_all add: catch_error_def io_defs opt_prop_def)

lemma catch_error_type_error:
  "catch_error type_error w = (Inr (failure (JStr network_error)), w)"
  by (simp add: catch_error_def io_defs opt_prop_def type_error_def js_or_def)

text \<open>It rethrows when the thrown value is \<^verbatim>\<open>null\<close> or \<^verbatim>\<open>undefined\<close>.\<close>

lemma catch_error_nullish:
  "catch_error JNull w = (Inl type_error, w)"
  "catch_error JUndefined w = (Inl type_error, w)"
  by (simp_all add: catch_error_def io_defs)

lemma login_result:
  assumes "\<forall>req e. api req = Rejects e \<longrightarrow> e \<noteq> JNull \<and> e \<noteq> JUndefined"
  shows "fst (login J api u p w) =
    Inr (settled (\<lambda>r. success_user (opt_prop r ''data'')) login_failed (api (login_request u p)))"
proof (cases "api (login_request u p)")
  case (Rejects e)
  with assms have "e \<noteq> JNull" "e \<noteq> JUndefined" by auto
  with Rejects show ?thesis
    by (simp add: login_def io_defs catch_error_object settled_def)
next
  case (Resolves r)
  show ?thesis
  proof (cases "get_prop r ''success''")
    case (Inl t)
    then have "t = type_error" by (rule unreadable_is_type_error)
    with Inl Resolves show ?thesis
      by (simp add: login_def io_defs catch_error_type_error settled_def)
  next
    case (Inr ok)
    with Resolves show ?thesis
      by (simp add: login_def io_defs settled_def message_readable [OF Inr]
            data_readable [OF Inr])
  qed
qed

lemma register_result:
  assumes "\<forall>req e. api req = Rejects e \<longrightarrow> e \<noteq> JNull \<and> e \<noteq> JUndefined"
  shows "fst (register J api n m p d w) =
    Inr (settled (\<lambda>r. success_user (opt_prop r ''data'')) register_failed
           (api (register_request n m p d)))"
proof (cases "api (register_request n m p d)")
  case (Rejects e)
  with assms have "e \<noteq> JNull" "e \<noteq> JUndefined" by auto
  with Rejects show ?thesis
    by (simp add: register_def io_defs catch_error_object settled_def)
next
  case (Resolves r)
  show ?thesis
  proof (cases "get_prop r ''success''")
    case (Inl t)
    then have "t = type_error" by (rule unreadable_is_type_error)
    with Inl Resolves show ?thesis
      by (simp add: register_def io_defs catch_error_type_error settled_def)
  next
    case (Inr ok)
    with Resolves show ?thesis
      by (simp add: register_def io_defs settled_def message_readable [OF Inr]
            data_readable [OF Inr])
  qed
qed

lemma updateUser_result:
  assumes "\<forall>req e. api req = Rejects e \<longrightarrow> e \<noteq> JNull \<and> e \<noteq> JUndefined"
      and "get_prop (user w) ''id'' = Inr uid"
  shows "fst (updateUser J api d w) =
    Inr (settled (\<lambda>r. success_user (opt_prop r ''data'')) update_failed
           (api (update_request uid d)))"
proof (cases "api (update_request uid d)")
  case (Rejects e)
  with assms have "e \<noteq> JNull" "e \<noteq> JUndefined" by auto
  with Rejects assms(2) show ?thesis
    by (simp add: updateUser_def io_defs catch_error_object settled_def)
next
  case (Resolves r)
  show ?thesis
  proof (cases "get_prop r ''success''")
    case (Inl t)
    then have "t = type_error" by (rule unreadable_is_type_error)
    with Inl Resolves assms(2) show ?thesis
      by (simp add: updateUser_def io_defs catch_error_type_error settled_def)
  next
    case (Inr ok)
    with Resolves assms(2) show ?thesis
      by (simp add: updateUser_def io_defs settled_def message_readable [OF Inr]
            data_readable [OF Inr])
  qed
qed

lemma changePassword_result:
  assumes "\<forall>req e. api req = Rejects e \<longrightarrow> e \<noteq> JNull \<and> e \<noteq> JUndefined"
      and "get_prop (user w) ''id'' = Inr uid"
  shows "fst (changePassword api old new w) =
    Inr (settled (\<lambda>r. success_only) password_failed (api (password_request uid old new)))"
proof (cases "api (password_request uid old new)")
  case (Rejects e)
  with assms have "e \<noteq> JNull" "e \<noteq> JUndefined" by auto
  with Rejects assms(2) show ?thesis
    by (simp add: changePassword_def io_defs catch_error_object settled_def)
next
  case (Resolves r)
  show ?thesis
  proof (cases "get_prop r ''success''")
    case (Inl t)
    then have "t = type_error" by (rule unreadable_is_type_error)
    with Inl Resolves assms(2) show ?thesis
      by (simp add: changePassword_def io_defs catch_error_type_error settled_def)
  next
    case (Inr ok)
    with Resolves assms(2) show ?thesis
      by (simp add: changePassword_def io_defs settled_def message_readable [OF Inr])
  qed
qed

text \<open>Without an identity the read of \<^verbatim>\<open>user.id\<close> throws inside the try block.\<close>

lemma no_identity_result:
  assumes "get_prop (user w) ''id'' = Inl t"
  shows "fst (updateUser J api d w) = Inr (failure (JStr network_error))"
    and "fst (changePassword api old new w) = Inr (failure (JStr network_error))"
  using assms unreadable_is_type_error [OF assms]
  by (simp_all add: updateUser_def changePassword_def io_defs catch_error_type_error)

section \<open>Properties\<close>

text \<open>
  C1. When the API resolves a login call with an envelope whose \<^verbatim>\<open>success\<close> is true
  (truthy), then after the call the current identity is the envelope's \<^verbatim>\<open>data\<close>, the
  durable storage key \<open>user\<close> holds what \<^verbatim>\<open>JSON.stringify\<close> gives for it, which is its
  JSON text whenever it has one, and the call returns \<^verbatim>\<open>{ success: true, user: data }\<close>.
\<close>

theorem login_success_adopts_identity:
  assumes "api (login_request usernameOrEmail password) = Resolves response"
      and "get_prop response ''success'' = Inr ok" and "truthy ok"
      and "get_prop response ''data'' = Inr userData"
  shows "fst (login J api usernameOrEmail password w) = Inr (success_user userData)
       \<and> user (snd (login J api usernameOrEmail password w)) = userData
       \<and> storage (snd (login J api usernameOrEmail password w)) ''user''
           = Some (to_string (JSON_stringify J userData))
       \<and> (\<forall>text. stringify J userData = Some text \<longrightarrow>
            storage (snd (login J api usernameOrEmail password w)) ''user'' = Some text)"
  using assms by (simp add: login_def io_defs JSON_stringify_def)

text \<open>Logging in as alice on a fresh page.\<close>

theorem login_success_adopts_identity_witness:
  "fst (login sample_json accepting_api (JStr ''alice'') (JStr ''secret'') signed_out)
     = Inr (success_user alice)
   \<and> user (snd (login sample_json accepting_api (JStr ''alice'') (JStr ''secret'') signed_out))
     = alice
   \<and> storage (snd (login sample_json accepting_api (JStr ''alice'') (JStr ''secret'') signed_out))
       ''user'' = Some alice_text"
proof -
  have a: "accepting_api (login_request (JStr ''alice'') (JStr ''secret''))
           = Resolves (JObj [(''success'', JBool True), (''data'', alice)])"
    by (simp add: accepting_api_def)
  have b: "get_prop (JObj [(''success'', JBool True), (''data'', alice)]) ''success''
           = Inr (JBool True)"
          "truthy (JBool True)"
          "get_prop (JObj [(''success'', JBool True), (''data'', alice)]) ''data'' = Inr alice"
    by simp_all
  have c: "stringify sample_json alice = Some alice_text"
    by (simp add: sample_json_def)
  note adopted = login_success_adopts_identity
      [where api = accepting_api and J = sample_json and w = signed_out, OF a b]
  show ?thesis
    using adopted [THEN conjunct1] adopted [THEN conjunct2, THEN conjunct1]
      adopted [THEN conjunct2, THEN conjunct2, THEN conjunct2, THEN spec, THEN mp, OF c]
    by simp
qed

text \<open>
  C2. When the API resolves a login, register or updateUser call with an envelope whose
  \<^verbatim>\<open>success\<close> is false (falsy), the current identity after the call is the one before
  it and durable storage is unchanged, the key \<open>user\<close> included. For updateUser the
  call is made only when the id of the current identity can be read.
\<close>

theorem failed_response_leaves_identity:
  assumes "get_prop response ''success'' = Inr ok" and "\<not> truthy ok"
  shows "(api (login_request usernameOrEmail password) = Resolves response \<longrightarrow>
            user (snd (login J api usernameOrEmail password w)) = user w
          \<and> storage (snd (login J api usernameOrEmail password w)) = storage w)
       \<and> (api (register_request username email password displayName) = Resolves response \<longrightarrow>
            user (snd (register J api username email password displayName w)) = user w
          \<and> storage (snd (register J api username email password displayName w)) = storage w)
       \<and> (get_prop (user w) ''id'' = Inr uid \<longrightarrow>
          api (update_request uid userData) = Resolves response \<longrightarrow>
            user (snd (updateUser J api userData w)) = user w
          \<and> storage (snd (updateUser J api userData w)) = storage w)"
  using assms message_readable [OF assms(1)]
  by (simp add: login_def register_def updateUser_def io_defs)


text \<open>A signed-in alice stays signed in when the server rejects each of the three calls.\<close>

theorem failed_response_leaves_identity_witness:
  "user (snd (login sample_json rejecting_api (JStr ''alice'') (JStr ''wrong'') signed_in)) = alice
   \<and> storage (snd (login sample_json rejecting_api (JStr ''alice'') (JStr ''wrong'') signed_in))
       ''user'' = Some alice_text
   \<and> user (snd (register sample_json rejecting_api (JStr ''alice'') (JStr ''a@b.c'')
                  (JStr ''wrong'') (JStr ''Alice'') signed_in)) = alice
   \<and> storage (snd (register sample_json rejecting_api (JStr ''alice'') (JStr ''a@b.c'')
                  (JStr ''wrong'') (JStr ''Alice'') signed_in)) ''user'' = Some alice_text
   \<and> user (snd (updateUser sample_json rejecting_api (JObj [(''bio'', JStr ''hi'')]) signed_in))
       = alice
   \<and> storage (snd (updateUser sample_json rejecting_api (JObj [(''bio'', JStr ''hi'')]) signed_in))
       ''user'' = Some alice_text"
proof -
  let ?r = "JObj [(''success'', JBool False), (''message'', JStr ''bad credentials'')]"
  have h1: "get_prop ?r ''success'' = Inr (JBool False)" by simp
  have h2: "\<not> truthy (JBool False)" by simp
  have h3: "get_prop (user signed_in) ''id'' = Inr (JNum 1)"
    by (simp add: signed_in_def alice_def)
  have h4: "rejecting_api req = Resolves ?r" for req
    by (simp add: rejecting_api_def)
  show ?thesis
    using failed_response_leaves_identity [OF h1 h2, of rejecting_api "JStr ''alice''"
        "JStr ''wrong''" sample_json signed_in "JStr ''alice''" "JStr ''a@b.c''"
        "JStr ''Alice''" "JNum 1" "JObj [(''bio'', JStr ''hi'')]"] h3 h4
    by (simp add: signed_in_def mounted_def)
qed


text \<open>
  C3. Whatever the prior state (identity present or absent), logout returns without
  throwing, leaves no current identity, removes the durable storage key \<open>user\<close>, and
  makes no API call; nothing else on the page changes.
\<close>

theorem logout_clears_identity:
  "logout w = (Inr (), w\<lparr>user := JNull, storage := (storage w)(''user'' := None)\<rparr>)
   \<and> user (snd (logout w)) = JNull
   \<and> storage (snd (logout w)) ''user'' = None
   \<and> sent (snd (logout w)) = sent w"
  by (simp add: logout_def js_bind_def setUser_def removeItem_def)


text \<open>
  C4, as amended. On mount, for every non-empty stored value under the key \<open>user\<close> that
  fails to parse as JSON, the effect ends with no current identity, the key \<open>user\<close>
  removed, no error thrown and the loading flag false; for a non-empty stored value that
  parses, it adopts the parsed value as the current identity, keeps the storage and sets
  the loading flag false. An empty stored string is not truthy, so \<^verbatim>\<open>if (savedUser)\<close>
  skips it like a missing key: it stays in storage, no identity is adopted, and the
  loading flag is set false.
\<close>

theorem AuthProvider_effect_restores:
  "(\<forall>s. st ''user'' = Some s \<longrightarrow> s \<noteq> [] \<longrightarrow> parse J s = None \<longrightarrow>
        fst (AuthProvider_effect J (mounted st cl)) = Inr ()
      \<and> user (snd (AuthProvider_effect J (mounted st cl))) = JNull
      \<and> storage (snd (AuthProvider_effect J (mounted st cl))) ''user'' = None
      \<and> \<not> loading (snd (AuthProvider_effect J (mounted st cl))))
   \<and> (\<forall>s v. st ''user'' = Some s \<longrightarrow> s \<noteq> [] \<longrightarrow> parse J s = Some v \<longrightarrow>
        fst (AuthProvider_effect J (mounted st cl)) = Inr ()
      \<and> user (snd (AuthProvider_effect J (mounted st cl))) = v
      \<and> storage (snd (AuthProvider_effect J (mounted st cl))) = st
      \<and> \<not> loading (snd (AuthProvider_effect J (mounted st cl))))
   \<and> (st ''user'' = Some [] \<longrightarrow>
        AuthProvider_effect J (mounted st cl) = (Inr (), (mounted st cl)\<lparr>loading := False\<rparr>))"
  by (simp add: AuthProvider_effect_def io_defs JSON_parse_def mounted_def)


text \<open>A corrupt stored value is discarded; the stored text of alice is adopted.\<close>

theorem AuthProvider_effect_restores_witness:
  "user (snd (AuthProvider_effect sample_json (mounted [''user'' \<mapsto> ''{oops''] []))) = JNull
   \<and> storage (snd (AuthProvider_effect sample_json (mounted [''user'' \<mapsto> ''{oops''] [])))
       ''user'' = None
   \<and> \<not> loading (snd (AuthProvider_effect sample_json (mounted [''user'' \<mapsto> ''{oops''] [])))
   \<and> user (snd (AuthProvider_effect sample_json (mounted [''user'' \<mapsto> alice_text] []))) = alice
   \<and> \<not> loading (snd (AuthProvider_effect sample_json (mounted [''user'' \<mapsto> alice_text] [])))"
  using AuthProvider_effect_restores [of "[''user'' \<mapsto> ''{oops'']" sample_json "[]"]
        AuthProvider_effect_restores [of "[''user'' \<mapsto> alice_text]" sample_json "[]"]
  by (simp add: sample_json_def alice_text_def)


text \<open>
  The claim as first stated, that every stored value that fails to parse ends with the
  key removed, fails for the empty string: it does not parse, and it is still stored
  after the effect.
\<close>

theorem AuthProvider_effect_empty_value_counterexample:
  "\<not> (parse sample_json [] = None \<longrightarrow>
        storage (snd (AuthProvider_effect sample_json (mounted [''user'' \<mapsto> []] []))) ''user''
          = None)"
  by (simp add: AuthProvider_effect_def io_defs mounted_def sample_json_def alice_text_def)


text \<open>
  C5. Let the API client reject only with error objects (a thrown transport error is
  never \<^verbatim>\<open>null\<close> or \<^verbatim>\<open>undefined\<close>). Then for every reply of the API client, resolved
  or rejected, and every page, login, register, updateUser and changePassword return and
  do not throw: the result is a success envelope or \<^verbatim>\<open>{ success: false, error: m }\<close>.
  When the server rejects (an envelope whose \<^verbatim>\<open>success\<close> is falsy), \<open>m\<close> is the envelope's
  \<^verbatim>\<open>message\<close> if it is truthy and the operation's fallback string otherwise; when the
  call throws the error \<open>e\<close>, \<open>m\<close> is \<^verbatim>\<open>e.response?.data?.message\<close> if it is truthy and the
  network fallback string otherwise.
\<close>

theorem session_operations_never_throw:
  assumes "\<forall>req e. api req = Rejects e \<longrightarrow> e \<noteq> JNull \<and> e \<noteq> JUndefined"
  shows
    "(\<exists>v. fst (login J api usernameOrEmail password w) = Inr v
          \<and> ((\<exists>d. v = success_user d) \<or> (\<exists>m. v = failure m)))
   \<and> (\<exists>v. fst (register J api username email password displayName w) = Inr v
          \<and> ((\<exists>d. v = success_user d) \<or> (\<exists>m. v = failure m)))
   \<and> (\<exists>v. fst (updateUser J api userData w) = Inr v
          \<and> ((\<exists>d. v = success_user d) \<or> (\<exists>m. v = failure m)))
   \<and> (\<exists>v. fst (changePassword api oldPassword newPassword w) = Inr v
          \<and> (v = success_only \<or> (\<exists>m. v = failure m)))
   \<and> (\<forall>r ok. get_prop r ''success'' = Inr ok \<longrightarrow> \<not> truthy ok \<longrightarrow>
        (api (login_request usernameOrEmail password) = Resolves r \<longrightarrow>
           fst (login J api usernameOrEmail password w)
             = Inr (failure (js_or (opt_prop r ''message'') (JStr login_failed))))
      \<and> (api (register_request username email password displayName) = Resolves r \<longrightarrow>
           fst (register J api username email password displayName w)
             = Inr (failure (js_or (opt_prop r ''message'') (JStr register_failed))))
      \<and> (\<forall>uid. get_prop (user w) ''id'' = Inr uid \<longrightarrow>
           (api (update_request uid userData) = Resolves r \<longrightarrow>
              fst (updateUser J api userData w)
                = Inr (failure (js_or (opt_prop r ''message'') (JStr update_failed))))
         \<and> (api (password_request uid oldPassword newPassword) = Resolves r \<longrightarrow>
              fst (changePassword api oldPassword newPassword w)
                = Inr (failure (js_or (opt_prop r ''message'') (JStr password_failed))))))
   \<and> (\<forall>e. (api (login_request usernameOrEmail password) = Rejects e \<longrightarrow>
           fst (login J api usernameOrEmail password w)
             = Inr (failure (js_or (opt_prop (opt_prop (opt_prop e ''response'') ''data'') ''message'')
                                   (JStr network_error))))
      \<and> (api (register_request username email password displayName) = Rejects e \<longrightarrow>
           fst (register J api username email password displayName w)
             = Inr (failure (js_or (opt_prop (opt_prop (opt_prop e ''response'') ''data'') ''message'')
                                   (JStr network_error))))
      \<and> (\<forall>uid. get_prop (user w) ''id'' = Inr uid \<longrightarrow>
           (api (update_request uid userData) = Rejects e \<longrightarrow>
              fst (updateUser J api userData w)
                = Inr (failure (js_or (opt_prop (opt_prop (opt_prop e ''response'') ''data'') ''message'')
                                      (JStr network_error))))
         \<and> (api (password_request uid oldPassword newPassword) = Rejects e \<longrightarrow>
              fst (changePassword api oldPassword newPassword w)
                = Inr (failure (js_or (opt_prop (opt_prop (opt_prop e ''response'') ''data'') ''message'')
                                      (JStr network_error))))))"
proof -
  note L = login_result [OF assms, of J usernameOrEmail password w]
  note R = register_result [OF assms, of J username email password displayName w]
  have shape: "(\<exists>d. settled (\<lambda>r. success_user (opt_prop r ''data'')) fb out = success_user d)
             \<or> (\<exists>m. settled (\<lambda>r. success_user (opt_prop r ''data'')) fb out = failure m)"
    for fb out
    by (auto simp add: settled_def split: outcome.splits sum.splits)
  have shape': "settled (\<lambda>r. success_only) fb out = success_only
             \<or> (\<exists>m. settled (\<lambda>r. success_only) fb out = failure m)"
    for fb out
    by (auto simp add: settled_def split: outcome.splits sum.splits)
  have c1: "\<exists>v. fst (login J api usernameOrEmail password w) = Inr v
          \<and> ((\<exists>d. v = success_user d) \<or> (\<exists>m. v = failure m))"
    using L shape by simp
  have c2: "\<exists>v. fst (register J api username email password displayName w) = Inr v
          \<and> ((\<exists>d. v = success_user d) \<or> (\<exists>m. v = failure m))"
    using R shape by simp
  have c3: "\<exists>v. fst (updateUser J api userData w) = Inr v
          \<and> ((\<exists>d. v = success_user d) \<or> (\<exists>m. v = failure m))"
  proof (cases "get_prop (user w) ''id''")
    case (Inl t)
    from no_identity_result(1) [OF Inl] show ?thesis by blast
  next
    case (Inr uid)
    from updateUser_result [OF assms Inr] shape show ?thesis by simp
  qed
  have c4: "\<exists>v. fst (changePassword api oldPassword newPassword w) = Inr v
          \<and> (v = success_only \<or> (\<exists>m. v = failure m))"
  proof (cases "get_prop (user w) ''id''")
    case (Inl t)
    from no_identity_result(2) [OF Inl] show ?thesis by blast
  next
    case (Inr uid)
    from changePassword_result [OF assms Inr] shape' show ?thesis by simp
  qed
  have c5: "\<forall>r ok. get_prop r ''success'' = Inr ok \<longrightarrow> \<not> truthy ok \<longrightarrow>
        (api (login_request usernameOrEmail password) = Resolves r \<longrightarrow>
           fst (login J api usernameOrEmail password w)
             = Inr (failure (js_or (opt_prop r ''message'') (JStr login_failed))))
      \<and> (api (register_request username email password displayName) = Resolves r \<longrightarrow>
           fst (register J api username email password displayName w)
             = Inr (failure (js_or (opt_prop r ''message'') (JStr register_failed))))
      \<and> (\<forall>uid. get_prop (user w) ''id'' = Inr uid \<longrightarrow>
           (api (update_request uid userData) = Resolves r \<longrightarrow>
              fst (updateUser J api userData w)
                = Inr (failure (js_or (opt_prop r ''message'') (JStr update_failed))))
         \<and> (api (password_request uid oldPassword newPassword) = Resolves r \<longrightarrow>
              fst (changePassword api oldPassword newPassword w)
                = Inr (failure (js_or (opt_prop r ''message'') (JStr password_failed)))))"
    using L R updateUser_result [OF assms] changePassword_result [OF assms]
    by (simp add: settled_def)
  have c6: "\<forall>e. (api (login_request usernameOrEmail password) = Rejects e \<longrightarrow>
           fst (login J api usernameOrEmail password w)
             = Inr (failure (js_or (opt_prop (opt_prop (opt_prop e ''response'') ''data'') ''message'')
                                   (JStr network_error))))
      \<and> (api (register_request username email password displayName) = Rejects e \<longrightarrow>
           fst (register J api username email password displayName w)
             = Inr (failure (js_or (opt_prop (opt_prop (opt_prop e ''response'') ''data'') ''message'')
                                   (JStr network_error))))
      \<and> (\<forall>uid. get_prop (user w) ''id'' = Inr uid \<longrightarrow>
           (api (update_request uid userData) = Rejects e \<longrightarrow>
              fst (updateUser J api userData w)
                = Inr (failure (js_or (opt_prop (opt_prop (opt_prop e ''response'') ''data'') ''message'')
                                      (JStr network_error))))
         \<and> (api (password_request uid oldPassword newPassword) = Rejects e \<longrightarrow>
              fst (changePassword api oldPassword newPassword w)
                = Inr (failure (js_or (opt_prop (opt_prop (opt_prop e ''response'') ''data'') ''message'')
                                      (JStr network_error)))))"
    using L R updateUser_result [OF assms] changePassword_result [OF assms]
    by (simp add: settled_def)
  from c1 c2 c3 c4 c5 c6 show ?thesis by (intro conjI)
qed


text \<open>
  All four operations turn a failed transport that carries a server message into a
  failure envelope with that message.
\<close>

theorem session_operations_never_throw_witness:
  "fst (login sample_json failing_api (JStr ''alice'') (JStr ''secret'') signed_in)
     = Inr (failure (JStr ''bad gateway''))
   \<and> fst (register sample_json failing_api (JStr ''alice'') (JStr ''a@b.c'') (JStr ''secret'')
           (JStr ''Alice'') signed_in)
     = Inr (failure (JStr ''bad gateway''))
   \<and> fst (updateUser sample_json failing_api (JObj [(''bio'', JStr ''hi'')]) signed_in)
     = Inr (failure (JStr ''bad gateway''))
   \<and> fst (changePassword failing_api (JStr ''old'') (JStr ''new'') signed_in)
     = Inr (failure (JStr ''bad gateway''))"
proof -
  have h: "\<forall>req e. failing_api req = Rejects e \<longrightarrow> e \<noteq> JNull \<and> e \<noteq> JUndefined"
    by (auto simp add: failing_api_def)
  have uid: "get_prop (user signed_in) ''id'' = Inr (JNum 1)"
    by (simp add: signed_in_def alice_def)
  have rej: "failing_api req =
      Rejects (JObj [(''message'', JStr ''Request failed''),
                    (''response'', JObj [(''data'', JObj [(''message'', JStr ''bad gateway'')])])])"
    for req by (simp add: failing_api_def)
  note thrown = session_operations_never_throw [OF h, of sample_json "JStr ''alice''"
      "JStr ''secret''" signed_in "JStr ''alice''" "JStr ''a@b.c''" "JStr ''Alice''"
      "JObj [(''bio'', JStr ''hi'')]" "JStr ''old''" "JStr ''new''",
      THEN conjunct2, THEN conjunct2, THEN conjunct2, THEN conjunct2, THEN conjunct2,
      THEN spec]
  note with_id = thrown [THEN conjunct2, THEN conjunct2, THEN spec, THEN mp, OF uid]
  show ?thesis
    using thrown [THEN conjunct1, THEN mp, OF rej]
      thrown [THEN conjunct2, THEN conjunct1, THEN mp, OF rej]
      with_id [THEN conjunct1, THEN mp, OF rej]
      with_id [THEN conjunct2, THEN mp, OF rej]
    by (simp add: opt_prop_def js_or_def)
qed


text \<open>
  C6. While the loading flag is true both guards render the spinner and neither renders
  its children nor navigates. Once it is false, the protected guard renders its children
  if and only if an identity is present and otherwise redirects to \<^verbatim>\<open>/login\<close>; the
  public guard redirects to \<^verbatim>\<open>/dashboard\<close> if and only if an identity is present and
  otherwise renders its children. The guards take \<^verbatim>\<open>user\<close> for a present identity
  when it is truthy: an identity object always is, and \<^verbatim>\<open>null\<close>, the state without
  identity, is not.
\<close>

theorem guards_decide_by_identity:
  "(loading w \<longrightarrow> ProtectedRoute c w = Spinner \<and> PublicRoute c w = Spinner)
   \<and> (\<not> loading w \<longrightarrow>
        (ProtectedRoute c w = Children c \<longleftrightarrow> truthy (user w))
      \<and> (\<not> truthy (user w) \<longrightarrow> ProtectedRoute c w = Navigate ''/login'' True)
      \<and> (PublicRoute c w = Navigate ''/dashboard'' True \<longleftrightarrow> truthy (user w))
      \<and> (\<not> truthy (user w) \<longrightarrow> PublicRoute c w = Children c)
      \<and> (\<forall>fields. user w = JObj fields \<longrightarrow>
            ProtectedRoute c w = Children c \<and> PublicRoute c w = Navigate ''/dashboard'' True)
      \<and> (user w = JNull \<longrightarrow>
            ProtectedRoute c w = Navigate ''/login'' True \<and> PublicRoute c w = Children c))"
  by (simp add: ProtectedRoute_def PublicRoute_def)

text \<open>The guards for a signed-in page, a signed-out page, and a page still loading.\<close>

theorem guards_decide_by_identity_witness:
  "ProtectedRoute ''Layout'' signed_in = Children ''Layout''
   \<and> PublicRoute ''Login'' signed_in = Navigate ''/dashboard'' True
   \<and> ProtectedRoute ''Layout'' (signed_out\<lparr>loading := False\<rparr>) = Navigate ''/login'' True
   \<and> PublicRoute ''Login'' (signed_out\<lparr>loading := False\<rparr>) = Children ''Login''
   \<and> ProtectedRoute ''Layout'' signed_out = Spinner
   \<and> PublicRoute ''Login'' signed_out = Spinner"
proof -
  have a: "\<not> loading signed_in" "truthy (user signed_in)"
    by (simp_all add: signed_in_def alice_def)
  have b: "\<not> loading (signed_out\<lparr>loading := False\<rparr>)"
          "\<not> truthy (user (signed_out\<lparr>loading := False\<rparr>))"
    by (simp_all add: signed_out_def mounted_def)
  have c: "loading signed_out"
    by (simp add: signed_out_def mounted_def)
  show ?thesis
    using guards_decide_by_identity [of signed_in "''Layout''"]
      guards_decide_by_identity [of signed_in "''Login''"]
      guards_decide_by_identity [of "signed_out\<lparr>loading := False\<rparr>" "''Layout''"]
      guards_decide_by_identity [of "signed_out\<lparr>loading := False\<rparr>" "''Login''"]
      guards_decide_by_identity [of signed_out "''Layout''"]
      guards_decide_by_identity [of signed_out "''Login''"] a b c
    by simp
qed


text \<open>
  C7. For each of the two theme values, \<^verbatim>\<open>light\<close> and \<^verbatim>\<open>dark\<close>, two successive calls of
  toggleTheme return without throwing and leave the theme at its original value.
\<close>

theorem toggleTheme_involution:
  assumes "theme w = JStr ''light'' \<or> theme w = JStr ''dark''"
  shows "fst (toggleTheme w) = Inr ()
       \<and> fst (toggleTheme (snd (toggleTheme w))) = Inr ()
       \<and> theme (snd (toggleTheme (snd (toggleTheme w)))) = theme w"
  using assms
  by (auto simp add: toggleTheme_def io_defs updateDocumentTheme_def classList_remove_def
        classList_add_def is_space_def Let_def)


text \<open>Toggling twice from light and from dark.\<close>

theorem toggleTheme_involution_witness:
  "theme (snd (toggleTheme (snd (toggleTheme signed_out)))) = JStr ''light''
   \<and> theme (snd (toggleTheme (snd (toggleTheme (signed_out\<lparr>theme := JStr ''dark''\<rparr>)))))
       = JStr ''dark''"
proof -
  have a: "theme signed_out = JStr ''light'' \<or> theme signed_out = JStr ''dark''"
    by (simp add: signed_out_def mounted_def)
  have b: "theme (signed_out\<lparr>theme := JStr ''dark''\<rparr>) = JStr ''light''
         \<or> theme (signed_out\<lparr>theme := JStr ''dark''\<rparr>) = JStr ''dark''"
    by simp
  show ?thesis
    using toggleTheme_involution [OF a] toggleTheme_involution [OF b]
    by (simp add: signed_out_def mounted_def)
qed


text \<open>
  C8. When nothing is stored under the key \<open>theme\<close>, the effect of \<^verbatim>\<open>ThemeProvider\<close>
  returns without throwing, adopts the environment's preference (\<^verbatim>\<open>dark\<close> if it prefers
  dark, \<^verbatim>\<open>light\<close> otherwise) as the current theme and applies it to the class list of
  the document's root element, which then has that class and not the other one. When a
  theme value is stored, \<^verbatim>\<open>light\<close> or \<^verbatim>\<open>dark\<close>, that stored value is adopted and
  applied instead, whatever the environment prefers.
\<close>

theorem ThemeProvider_effect_resolves:
  "(storage w ''theme'' = None \<longrightarrow>
      fst (ThemeProvider_effect prefers_dark w) = Inr ()
    \<and> theme (snd (ThemeProvider_effect prefers_dark w))
        = JStr (if prefers_dark then ''dark'' else ''light'')
    \<and> (if prefers_dark then ''dark'' else ''light'')
        \<in> set (classList (snd (ThemeProvider_effect prefers_dark w)))
    \<and> (if prefers_dark then ''light'' else ''dark'')
        \<notin> set (classList (snd (ThemeProvider_effect prefers_dark w))))
   \<and> (\<forall>s. storage w ''theme'' = Some s \<longrightarrow> s = ''light'' \<or> s = ''dark'' \<longrightarrow>
      fst (ThemeProvider_effect prefers_dark w) = Inr ()
    \<and> theme (snd (ThemeProvider_effect prefers_dark w)) = JStr s
    \<and> s \<in> set (classList (snd (ThemeProvider_effect prefers_dark w)))
    \<and> (if s = ''light'' then ''dark'' else ''light'')
        \<notin> set (classList (snd (ThemeProvider_effect prefers_dark w))))"
proof -
  have none: "storage w ''theme'' = None \<longrightarrow>
      fst (ThemeProvider_effect prefers_dark w) = Inr ()
    \<and> theme (snd (ThemeProvider_effect prefers_dark w))
        = JStr (if prefers_dark then ''dark'' else ''light'')
    \<and> (if prefers_dark then ''dark'' else ''light'')
        \<in> set (classList (snd (ThemeProvider_effect prefers_dark w)))
    \<and> (if prefers_dark then ''light'' else ''dark'')
        \<notin> set (classList (snd (ThemeProvider_effect prefers_dark w)))"
    by (auto simp add: ThemeProvider_effect_def io_defs updateDocumentTheme_def
          classList_remove_def classList_add_def is_space_def Let_def js_or_def)
  have stored: "\<forall>s. storage w ''theme'' = Some s \<longrightarrow> s = ''light'' \<or> s = ''dark'' \<longrightarrow>
      fst (ThemeProvider_effect prefers_dark w) = Inr ()
    \<and> theme (snd (ThemeProvider_effect prefers_dark w)) = JStr s
    \<and> s \<in> set (classList (snd (ThemeProvider_effect prefers_dark w)))
    \<and> (if s = ''light'' then ''dark'' else ''light'')
        \<notin> set (classList (snd (ThemeProvider_effect prefers_dark w)))"
    by (auto simp add: ThemeProvider_effect_def io_defs updateDocumentTheme_def
          classList_remove_def classList_add_def is_space_def Let_def js_or_def)
  from none stored show ?thesis by (rule conjI)
qed

text \<open>
  No stored theme with a dark environment gives dark; a stored light wins over a dark
  environment and replaces the class that was there.
\<close>

theorem ThemeProvider_effect_resolves_witness:
  "theme (snd (ThemeProvider_effect True signed_out)) = JStr ''dark''
   \<and> ''dark'' \<in> set (classList (snd (ThemeProvider_effect True signed_out)))
   \<and> theme (snd (ThemeProvider_effect True (mounted [''theme'' \<mapsto> ''light''] [''dark''])))
       = JStr ''light''
   \<and> ''light'' \<in> set (classList (snd (ThemeProvider_effect True
                                         (mounted [''theme'' \<mapsto> ''light''] [''dark'']))))
   \<and> ''dark'' \<notin> set (classList (snd (ThemeProvider_effect True
                                         (mounted [''theme'' \<mapsto> ''light''] [''dark'']))))"
proof -
  have a: "storage signed_out ''theme'' = None"
    by (simp add: signed_out_def mounted_def)
  have b: "storage (mounted [''theme'' \<mapsto> ''light''] [''dark'']) ''theme'' = Some ''light''"
    by (simp add: mounted_def)
  have c: "''light'' = ''light'' \<or> ''light'' = ''dark''"
    by simp
  show ?thesis
    using ThemeProvider_effect_resolves [of signed_out True, THEN conjunct1, THEN mp, OF a]
      ThemeProvider_effect_resolves
        [of "mounted [''theme'' \<mapsto> ''light''] [''dark'']" True,
         THEN conjunct2, THEN spec, THEN mp, OF b, THEN mp, OF c]
    by simp
qed

text \<open>
  C9. When the id of the current identity can be read and the API resolves the
  changePassword call with an envelope whose \<^verbatim>\<open>success\<close> is true (truthy), the call
  returns \<^verbatim>\<open>{ success: true }\<close> and nothing else, and the current identity and durable
  storage, the key \<open>user\<close> included, are unchanged.
\<close>

theorem changePassword_keeps_identity:
  assumes "get_prop (user w) ''id'' = Inr uid"
      and "api (password_request uid oldPassword newPassword) = Resolves response"
      and "get_prop response ''success'' = Inr ok" and "truthy ok"
  shows "fst (changePassword api oldPassword newPassword w) = Inr success_only
       \<and> user (snd (changePassword api oldPassword newPassword w)) = user w
       \<and> storage (snd (changePassword api oldPassword newPassword w)) = storage w"
  using assms by (simp add: changePassword_def io_defs)


text \<open>Alice changes her password and stays who she is.\<close>

theorem changePassword_keeps_identity_witness:
  "fst (changePassword accepting_api (JStr ''old'') (JStr ''new'') signed_in) = Inr success_only
   \<and> user (snd (changePassword accepting_api (JStr ''old'') (JStr ''new'') signed_in)) = alice
   \<and> storage (snd (changePassword accepting_api (JStr ''old'') (JStr ''new'') signed_in)) ''user''
       = Some alice_text"
proof -
  have a: "get_prop (user signed_in) ''id'' = Inr (JNum 1)"
    by (simp add: signed_in_def alice_def)
  have b: "accepting_api (password_request (JNum 1) (JStr ''old'') (JStr ''new''))
           = Resolves (JObj [(''success'', JBool True), (''data'', alice)])"
    by (simp add: accepting_api_def)
  have c: "get_prop (JObj [(''success'', JBool True), (''data'', alice)]) ''success''
           = Inr (JBool True)" "truthy (JBool True)"
    by simp_all
  show ?thesis
    using changePassword_keeps_identity [where api = accepting_api, OF a b c]
    by (simp add: signed_in_def mounted_def)
qed


text \<open>
  C10. When updateUser is called with no current identity (\<^verbatim>\<open>user\<close> is \<^verbatim>\<open>null\<close>), the
  read of \<^verbatim>\<open>user.id\<close> throws inside the try block; the call does not throw but returns
  \<^verbatim>\<open>{ success: false, error: <network fallback> }\<close>, and the page is unchanged: the
  identity is still absent, durable storage is untouched, and no API call is made.
\<close>

theorem updateUser_without_identity:
  assumes "user w = JNull"
  shows "updateUser J api userData w = (Inr (failure (JStr network_error)), w)"
  using assms
  by (simp add: updateUser_def io_defs catch_error_type_error)


text \<open>updateUser on a signed-out page.\<close>

theorem updateUser_without_identity_witness:
  "fst (updateUser sample_json accepting_api (JObj [(''bio'', JStr ''hi'')]) signed_out)
     = Inr (failure (JStr network_error))
   \<and> user (snd (updateUser sample_json accepting_api (JObj [(''bio'', JStr ''hi'')]) signed_out))
     = JNull
   \<and> storage (snd (updateUser sample_json accepting_api (JObj [(''bio'', JStr ''hi'')]) signed_out))
       ''user'' = None
   \<and> sent (snd (updateUser sample_json accepting_api (JObj [(''bio'', JStr ''hi'')]) signed_out))
     = []"
proof -
  have a: "user signed_out = JNull"
    by (simp add: signed_out_def mounted_def)
  show ?thesis
    using updateUser_without_identity [OF a, of sample_json accepting_api
        "JObj [(''bio'', JStr ''hi'')]"]
    by (simp add: signed_out_def mounted_def)
qed


end
